theory Spec2Isabelle
  imports Main
begin

section \<open>The compress post-processor\<close>

text \<open>
  A shallow embedding of \<^verbatim>\<open>post-processor/compress/post-processor.go\<close>.
  Strings are byte strings, as Go's are. Go's \<^verbatim>\<open>int\<close> is modelled by \<open>int\<close>: the code only
  compares and copies compression levels, it never computes with them.
\<close>

subsection \<open>Config\<close>

text \<open>
  The struct \<^verbatim>\<open>Config\<close>. Of the embedded \<^verbatim>\<open>common.PackerConfig\<close> only the two fields
  the post-processor reads are kept. \<open>Archive\<close> and \<open>Algorithm\<close> are the derived fields; the
  empty string is their zero value and stands for "no archive" and "no compression".
\<close>

record Config =
  PackerBuildName :: string
  PackerBuilderType :: string
  OutputPath :: string
  Format :: string
  CompressionLevel :: int
  Archive :: string
  Algorithm :: string

subsection \<open>The filename pattern\<close>

text \<open>
  \<^verbatim>\<open>filenamePattern = regexp.MustCompile(`(?:\.([a-z0-9]+))`)\<close>: a literal dot followed by a
  non-empty, greedy run of characters of the class \<^verbatim>\<open>[a-z0-9]\<close>.
\<close>

definition isTokenChar :: "char \<Rightarrow> bool" where
  "isTokenChar c =
     (let n = (of_char c :: nat) in (97 \<le> n \<and> n \<le> 122) \<or> (48 \<le> n \<and> n \<le> 57))"

text \<open>
  \<^verbatim>\<open>filenamePattern.FindAllStringSubmatch(s, -1)\<close>: all successive non-overlapping matches,
  leftmost first; each match is the list of the whole match and of its one capture group.
  A match is never empty, so the search resumes right behind it.
\<close>

function FindAllStringSubmatch :: "string \<Rightarrow> string list list" where
  "FindAllStringSubmatch [] = []"
| "FindAllStringSubmatch (c # cs) =
     (if c = CHR ''.'' \<and> takeWhile isTokenChar cs \<noteq> []
      then [c # takeWhile isTokenChar cs, takeWhile isTokenChar cs]
             # FindAllStringSubmatch (dropWhile isTokenChar cs)
      else FindAllStringSubmatch cs)"
  by pat_completeness auto
termination
  by (relation "measure length") (auto simp: length_dropWhile_le less_Suc_eq_le)

subsection \<open>detectFromFilename\<close>

definition extensions :: "string \<rightharpoonup> string" where
  "extensions = map_of
     [(''tar'', ''tar''), (''zip'', ''zip''), (''gz'', ''pgzip''), (''lz4'', ''lz4''),
      (''bgzf'', ''bgzf''), (''xz'', ''xz''), (''bzip2'', ''bzip2'')]"

text \<open>
  The method mutates \<open>Archive\<close> and \<open>Algorithm\<close> of its receiver; the model returns the
  updated config. A field the method does not assign keeps the value it had. The map
  \<open>extensions\<close> is the one the method builds, with its seven entries.

  Lines 272 to 309: what the method does with the matches once it has them.
\<close>

definition classifyMatches :: "string list list \<Rightarrow> Config \<Rightarrow> Config" where
  "classifyMatches result config =
     (if length result = 0
      then config\<lparr>Algorithm := ''pgzip'', Archive := ''tar''\<rparr>
      else
        let lastItem = result ! (length result - 1) ! 1;
            nextToLastItem =
              (if length result = 1 then '''' else result ! (length result - 2) ! 1);
            config1 = (if nextToLastItem = ''tar'' then config\<lparr>Archive := ''tar''\<rparr> else config)
        in if lastItem = ''zip'' \<or> lastItem = ''tar''
           then config1\<lparr>Archive := lastItem\<rparr>
           else (case extensions lastItem of
                   Some algorithm \<Rightarrow> config1\<lparr>Algorithm := algorithm\<rparr>
                 | None \<Rightarrow> config1\<lparr>Algorithm := ''pgzip'', Archive := ''tar''\<rparr>))"

text \<open>
  Lines 253 to 310, the whole method: the matches are those in the output path, or in the
  output path, a dot and the format (\<^verbatim>\<open>fmt.Sprintf("%s.%s", ...)\<close>) when a format is given.
\<close>

definition detectFromFilename :: "Config \<Rightarrow> Config" where
  "detectFromFilename config =
     (let result =
            (if Format config = ''''
             then FindAllStringSubmatch (OutputPath config)
             else FindAllStringSubmatch (OutputPath config @ ''.'' @ Format config))
      in classifyMatches result config)"

subsection \<open>Errors\<close>

text \<open>
  A Go \<^verbatim>\<open>error\<close> is compared by identity, so the two package-level error variables are
  constructors of their own. \<open>Errorf msg\<close> is the fresh value a call of \<^verbatim>\<open>fmt.Errorf\<close> in
  this file returns, with its formatted message; \<open>External msg\<close> is an error value made
  outside this package (the operating system, a codec, the SDK), with its message.
\<close>

datatype error =
    ErrInvalidCompressionLevel
  | ErrWrongInputCount
  | Errorf string
  | External string

text \<open>The method \<^verbatim>\<open>Error()\<close>: the message of an error, as \<^verbatim>\<open>%s\<close> prints it.\<close>

fun Error :: "error \<Rightarrow> string" where
  "Error ErrInvalidCompressionLevel =
     ''Invalid compression level. Expected an integer from -1 to 9.''"
| "Error ErrWrongInputCount = ''Can only have 1 input file when not using tar/zip''"
| "Error (Errorf msg) = msg"
| "Error (External msg) = msg"

text \<open>What \<^verbatim>\<open>Configure\<close> returns: the error of \<^verbatim>\<open>config.Decode\<close> as it is, or the
  \<^verbatim>\<open>MultiError\<close> with the errors appended to it.\<close>

datatype configure_error = DecodeError error | MultiError "error list"

subsection \<open>Formatting verbs\<close>

text \<open>\<^verbatim>\<open>%d\<close> of an integer and \<^verbatim>\<open>%v\<close> of a slice of strings.\<close>

fun digits :: "nat \<Rightarrow> string" where
  "digits n =
     (if n < 10 then [''0123456789'' ! n]
      else digits (n div 10) @ [''0123456789'' ! (n mod 10)])"

declare digits.simps [simp del]

definition fmt_d :: "int \<Rightarrow> string" where
  "fmt_d i = (if i < 0 then ''-'' @ digits (nat (- i)) else digits (nat i))"

fun joinSpace :: "string list \<Rightarrow> string" where
  "joinSpace [] = []"
| "joinSpace [x] = x"
| "joinSpace (x # y # ys) = x @ '' '' @ joinSpace (y # ys)"

definition fmt_v :: "string list \<Rightarrow> string" where
  "fmt_v xs = ''['' @ joinSpace xs @ '']''"

subsection \<open>Writers, the environment and the trace of effects\<close>

text \<open>
  A writer is described by how it was built: the output file, a compression writer around
  a writer with the parameters it was constructed with, an archive writer around a writer.
\<close>

datatype writer =
    OutputFile string
  | BGZFWriter writer int int
  | BZIP2Writer writer int
  | LZ4Writer writer int
  | XZWriter writer
  | PgzipWriter writer int int int
  | TarWriter writer
  | ZipWriter writer
  | ZipEntry writer string

text \<open>
  The calls that act on the outside world, in the order the code makes them. An event is
  recorded for a call that was made; whether it succeeded is what the environment says.
  \<open>NewWriter\<close> records a compression writer that was constructed.
\<close>

datatype event =
    Println string
  | Say string
  | MkdirAll string
  | Create string
  | NewWriter writer
  | Open string
  | Stat string
  | WriteHeader writer string
  | ZipCreate writer string
  | Copy writer string
  | CloseFile string
  | CloseWriter writer

text \<open>The raw configurations given to \<^verbatim>\<open>Configure\<close>: maps from keys to raw values.\<close>

datatype rawValue = RawString string | RawInt int

type_synonym raws = "(string \<times> rawValue) list list"

text \<open>
  Everything the post-processor calls and does not define: the SDK's decoder and template
  engine, \<^verbatim>\<open>path/filepath\<close>, the Go runtime, the file system and the codec libraries. A
  call that can fail yields \<open>Some msg\<close>, the message of the error it returns, or \<open>None\<close>
  when it succeeds. \<open>runtime_GOMAXPROCS\<close> is what \<^verbatim>\<open>runtime.GOMAXPROCS(-1)\<close> returns;
  \<open>io_Copy w path\<close> is the copy of the open file \<open>path\<close> into the writer \<open>w\<close>. The answer to
  a call depends on its arguments only, not on the calls made before it.
\<close>

record Env =
  config_Decode :: "Config \<Rightarrow> raws \<Rightarrow> Config \<times> string option"
  interpolate_Validate :: "string \<Rightarrow> string option"
  interpolate_Render :: "string \<Rightarrow> (string \<rightharpoonup> string) \<Rightarrow> string + string"
  filepath_Dir :: "string \<Rightarrow> string"
  filepath_ToSlash :: "string \<Rightarrow> string"
  runtime_GOMAXPROCS :: int
  os_MkdirAll :: "string \<Rightarrow> string option"
  os_Create :: "string \<Rightarrow> string option"
  os_Open :: "string \<Rightarrow> string option"
  file_Stat :: "string \<Rightarrow> string option"
  tar_FileInfoHeader :: "string \<Rightarrow> string option"
  tar_WriteHeader :: "writer \<Rightarrow> string \<Rightarrow> string option"
  zip_Create :: "writer \<Rightarrow> string \<Rightarrow> string option"
  io_Copy :: "writer \<Rightarrow> string \<Rightarrow> string option"
  bgzf_NewWriterLevel :: "writer \<Rightarrow> int \<Rightarrow> int \<Rightarrow> string option"
  bzip2_NewWriter :: "writer \<Rightarrow> int \<Rightarrow> string option"
  xz_NewWriter :: "writer \<Rightarrow> string option"
  pgzip_NewWriterLevel :: "writer \<Rightarrow> int \<Rightarrow> string option"

subsection \<open>Configure\<close>

text \<open>
  Modelled from the spec: the constants \<^verbatim>\<open>pgzip.BestCompression\<close> and
  \<^verbatim>\<open>pgzip.DefaultCompression\<close> belong to the library \<^verbatim>\<open>github.com/klauspost/pgzip\<close>, which
  is not among the sources; the spec gives the range of gzip levels as -1..9, with 9 the
  maximum and -1 the library default, and so does the message of
  \<open>ErrInvalidCompressionLevel\<close>.
\<close>

definition pgzip_BestCompression :: int where
  "pgzip_BestCompression = 9"

definition pgzip_DefaultCompression :: int where
  "pgzip_DefaultCompression = - 1"

record PostProcessor =
  config :: Config

text \<open>
  \<^verbatim>\<open>Configure\<close> mutates \<^verbatim>\<open>p.config\<close>; the model returns the post-processor with the error.
  When decoding fails the method returns at once. The template context \<^verbatim>\<open>ctx\<close> lives in
  the environment's \<open>interpolate_Validate\<close> and \<open>interpolate_Render\<close>, and the adjustment of
  \<^verbatim>\<open>GOMAXPROCS\<close> acts on the Go runtime and leaves the config alone.
\<close>

definition Configure :: "Env \<Rightarrow> PostProcessor \<Rightarrow> raws \<Rightarrow> PostProcessor \<times> configure_error option" where
  "Configure env p rs =
     (case config_Decode env (config p) rs of
        (c, Some msg) \<Rightarrow> (p\<lparr>config := c\<rparr>, Some (DecodeError (External msg)))
      | (c0, None) \<Rightarrow>
          let c1 = (if OutputPath c0 = ''''
                    then c0\<lparr>OutputPath := ''packer_{{.BuildName}}_{{.BuilderType}}''\<rparr> else c0);
              c2 = (if CompressionLevel c1 > pgzip_BestCompression
                    then c1\<lparr>CompressionLevel := pgzip_BestCompression\<rparr> else c1);
              c3 = (if CompressionLevel c2 = - 1 \<or> CompressionLevel c2 = 0
                    then c2\<lparr>CompressionLevel := pgzip_DefaultCompression\<rparr> else c2);
              errs = (case interpolate_Validate env (OutputPath c3) of
                        Some msg \<Rightarrow>
                          [Errorf (''Error parsing target template: '' @ msg)]
                      | None \<Rightarrow> []);
              c4 = detectFromFilename c3
          in (p\<lparr>config := c4\<rparr>, if length errs > 0 then Some (MultiError errs) else None))"

subsection \<open>The writer factories\<close>

definition makeBGZFWriter :: "Env \<Rightarrow> writer \<Rightarrow> int \<Rightarrow> error + writer" where
  "makeBGZFWriter env output compressionLevel =
     (case bgzf_NewWriterLevel env output compressionLevel (runtime_GOMAXPROCS env) of
        Some msg \<Rightarrow> Inl ErrInvalidCompressionLevel
      | None \<Rightarrow> Inr (BGZFWriter output compressionLevel (runtime_GOMAXPROCS env)))"

definition makeBZIP2Writer :: "Env \<Rightarrow> writer \<Rightarrow> int \<Rightarrow> error + writer" where
  "makeBZIP2Writer env output compressionLevel =
     (let level = (if compressionLevel > 0 then compressionLevel else 9)
      in case bzip2_NewWriter env output level of
           Some msg \<Rightarrow> Inl (External msg)
         | None \<Rightarrow> Inr (BZIP2Writer output level))"

text \<open>\<^verbatim>\<open>lz4.NewWriter\<close> cannot fail; the header's level stays at its zero value unless the
  caller's level is positive.\<close>

definition makeLZ4Writer :: "Env \<Rightarrow> writer \<Rightarrow> int \<Rightarrow> error + writer" where
  "makeLZ4Writer env output compressionLevel =
     Inr (LZ4Writer output (if compressionLevel > 0 then compressionLevel else 0))"

definition makeXZWriter :: "Env \<Rightarrow> writer \<Rightarrow> error + writer" where
  "makeXZWriter env output =
     (case xz_NewWriter env output of
        Some msg \<Rightarrow> Inl (External msg)
      | None \<Rightarrow> Inr (XZWriter output))"

text \<open>The error \<^verbatim>\<open>SetConcurrency\<close> may return is dropped by the code.\<close>

definition makePgzipWriter :: "Env \<Rightarrow> writer \<Rightarrow> int \<Rightarrow> error + writer" where
  "makePgzipWriter env output compressionLevel =
     (case pgzip_NewWriterLevel env output compressionLevel of
        Some msg \<Rightarrow> Inl ErrInvalidCompressionLevel
      | None \<Rightarrow> Inr (PgzipWriter output compressionLevel 500000 (runtime_GOMAXPROCS env)))"

subsection \<open>The archive writers\<close>

text \<open>
  The loop of \<^verbatim>\<open>createTarArchive\<close>. The third component collects the deferred
  \<^verbatim>\<open>file.Close()\<close> calls in the order they run when the function returns: last deferred,
  first run. The contents of the header are not modelled, so \<^verbatim>\<open>setHeaderFormat\<close>, which
  only edits the header, leaves no trace.
\<close>

fun tarFiles :: "Env \<Rightarrow> writer \<Rightarrow> string list \<Rightarrow> error option \<times> event list \<times> event list" where
  "tarFiles env archive [] = (None, [], [])"
| "tarFiles env archive (path # files) =
     (case os_Open env path of
        Some msg \<Rightarrow>
          (Some (Errorf (''Unable to read file '' @ path @ '': '' @ msg)), [Open path], [])
      | None \<Rightarrow>
     (case file_Stat env path of
        Some msg \<Rightarrow>
          (Some (Errorf (''Unable to get fileinfo for '' @ path @ '': '' @ msg)),
           [Open path, Stat path], [CloseFile path])
      | None \<Rightarrow>
     (case tar_FileInfoHeader env path of
        Some msg \<Rightarrow>
          (Some (Errorf (''Failed to create tar header for '' @ path @ '': '' @ msg)),
           [Open path, Stat path], [CloseFile path])
      | None \<Rightarrow>
     (case tar_WriteHeader env archive path of
        Some msg \<Rightarrow>
          (Some (Errorf (''Failed to write tar header for '' @ path @ '': '' @ msg)),
           [Open path, Stat path, WriteHeader archive path], [CloseFile path])
      | None \<Rightarrow>
     (case io_Copy env archive path of
        Some msg \<Rightarrow>
          (Some (Errorf (''Failed to copy '' @ path @ '' data to archive: '' @ msg)),
           [Open path, Stat path, WriteHeader archive path, Copy archive path],
           [CloseFile path])
      | None \<Rightarrow>
          (case tarFiles env archive files of
             (err, tr, deferred) \<Rightarrow>
               (err, [Open path, Stat path, WriteHeader archive path, Copy archive path] @ tr,
                deferred @ [CloseFile path])))))))"

definition createTarArchive :: "Env \<Rightarrow> string list \<Rightarrow> writer \<Rightarrow> error option \<times> event list" where
  "createTarArchive env files output =
     (let archive = TarWriter output
      in case tarFiles env archive files of
           (err, tr, deferred) \<Rightarrow> (err, tr @ deferred @ [CloseWriter archive]))"

fun zipFiles :: "Env \<Rightarrow> writer \<Rightarrow> string list \<Rightarrow> error option \<times> event list \<times> event list" where
  "zipFiles env archive [] = (None, [], [])"
| "zipFiles env archive (path0 # files) =
     (let path = filepath_ToSlash env path0 in
      case os_Open env path of
        Some msg \<Rightarrow>
          (Some (Errorf (''Unable to read file '' @ path @ '': '' @ msg)), [Open path], [])
      | None \<Rightarrow>
     (case zip_Create env archive path of
        Some msg \<Rightarrow>
          (Some (Errorf (''Failed to add zip header for '' @ path @ '': '' @ msg)),
           [Open path, ZipCreate archive path], [CloseFile path])
      | None \<Rightarrow>
     (case io_Copy env (ZipEntry archive path) path of
        Some msg \<Rightarrow>
          (Some (Errorf (''Failed to copy '' @ path @ '' data to archive: '' @ msg)),
           [Open path, ZipCreate archive path, Copy (ZipEntry archive path) path],
           [CloseFile path])
      | None \<Rightarrow>
          (case zipFiles env archive files of
             (err, tr, deferred) \<Rightarrow>
               (err,
                [Open path, ZipCreate archive path, Copy (ZipEntry archive path) path] @ tr,
                deferred @ [CloseFile path])))))"

definition createZipArchive :: "Env \<Rightarrow> string list \<Rightarrow> writer \<Rightarrow> error option \<times> event list" where
  "createZipArchive env files output =
     (let archive = ZipWriter output
      in case zipFiles env archive files of
           (err, tr, deferred) \<Rightarrow> (err, tr @ deferred @ [CloseWriter archive]))"

subsection \<open>PostProcess\<close>

text \<open>
  The artifact handed in: its files, and its state values. A state value is an
  \<^verbatim>\<open>interface{}\<close>: nil, a \<^verbatim>\<open>map[interface{}]interface{}\<close> (itself possibly the nil map), or
  a value of another type, on which the type assertion of \<^verbatim>\<open>PostProcess\<close> panics. Keys and
  values of the map are taken to be strings.
\<close>

datatype stateValue = NilValue | MapValue "(string \<rightharpoonup> string) option" | OtherValue

record SdkArtifact =
  Files :: "string list"
  State :: "string \<Rightarrow> stateValue"

text \<open>The artifact produced, and the four results of \<^verbatim>\<open>PostProcess\<close>; a run that
  panics returns nothing.\<close>

record Artifact =
  Path :: string

type_synonym results = "Artifact option \<times> bool \<times> bool \<times> error option"

datatype outcome = Return results | Panic

definition failWith :: "error \<Rightarrow> results" where
  "failWith err = (None, False, False, Some err)"

text \<open>
  One case of the switch on the algorithm: the message said, then the writer made by the
  factory. On failure the factory's error is wrapped with \<^verbatim>\<open>errTmpl\<close>; on success the
  writer's \<^verbatim>\<open>Close\<close> is deferred (third component).
\<close>

definition writerCase ::
  "string \<Rightarrow> string \<Rightarrow> error + writer \<Rightarrow> (error + writer) \<times> event list \<times> event list" where
  "writerCase algorithm msg made =
     (case made of
        Inl err \<Rightarrow>
          (Inl (Errorf (''error creating '' @ algorithm @ '' writer: '' @ Error err)), [Say msg], [])
      | Inr output \<Rightarrow> (Inr output, [Say msg, NewWriter output], [CloseWriter output]))"

text \<open>Lines 154 to 202: the switch that sets up \<^verbatim>\<open>output\<close>.\<close>

definition setupOutput ::
  "Env \<Rightarrow> Config \<Rightarrow> writer \<Rightarrow> string \<Rightarrow> (error + writer) \<times> event list \<times> event list" where
  "setupOutput env cfg outputFile target =
     (if Algorithm cfg = ''bgzf'' then
        writerCase (Algorithm cfg)
          (''Using bgzf compression with '' @ fmt_d (runtime_GOMAXPROCS env) @ '' cores for '' @ target)
          (makeBGZFWriter env outputFile (CompressionLevel cfg))
      else if Algorithm cfg = ''bzip2'' then
        writerCase (Algorithm cfg)
          (''Using bzip2 compression with 1 core for '' @ target @ '' (library does not support MT)'')
          (makeBZIP2Writer env outputFile (CompressionLevel cfg))
      else if Algorithm cfg = ''lz4'' then
        writerCase (Algorithm cfg)
          (''Using lz4 compression with '' @ fmt_d (runtime_GOMAXPROCS env) @ '' cores for '' @ target)
          (makeLZ4Writer env outputFile (CompressionLevel cfg))
      else if Algorithm cfg = ''xz'' then
        writerCase (Algorithm cfg)
          (''Using xz compression with 1 core for '' @ target @ '' (library does not support MT)'')
          (makeXZWriter env outputFile)
      else if Algorithm cfg = ''pgzip'' then
        writerCase (Algorithm cfg)
          (''Using pgzip compression with '' @ fmt_d (runtime_GOMAXPROCS env) @ '' cores for '' @ target)
          (makePgzipWriter env outputFile (CompressionLevel cfg))
      else (Inr outputFile, [], []))"

text \<open>
  Lines 204 to 246: the switch on the archive kind. The third component is the deferred
  \<^verbatim>\<open>source.Close()\<close> of the last case.
\<close>

definition buildArchive ::
  "Env \<Rightarrow> Config \<Rightarrow> string list \<Rightarrow> writer \<Rightarrow> string \<Rightarrow> error option \<times> event list \<times> event list" where
  "buildArchive env cfg files output target =
     (let compression = (if Algorithm cfg = '''' then ''no compression'' else Algorithm cfg)
      in if Archive cfg = ''tar'' then
           (case createTarArchive env files output of
              (Some err, tr) \<Rightarrow>
                (Some (Errorf (''Error creating tar: '' @ Error err)),
                 Say (''Tarring '' @ target @ '' with '' @ compression) # tr, [])
            | (None, tr) \<Rightarrow>
                (None, Say (''Tarring '' @ target @ '' with '' @ compression) # tr, []))
         else if Archive cfg = ''zip'' then
           (case createZipArchive env files output of
              (Some err, tr) \<Rightarrow>
                (Some (Errorf (''Error creating zip: '' @ Error err)),
                 Say (''Zipping '' @ target) # tr, [])
            | (None, tr) \<Rightarrow> (None, Say (''Zipping '' @ target) # tr, []))
         else if length files \<noteq> 1 then
           (Some (Errorf (''Can only have 1 input file when not using tar/zip. Found ''
                          @ fmt_d (int (length files)) @ '' files: '' @ fmt_v files)),
            [], [])
         else
           (let archiveFile = files ! 0
            in case os_Open env archiveFile of
                 Some msg \<Rightarrow>
                   (Some (Errorf (''Failed to open source file '' @ archiveFile
                                  @ '' for reading: '' @ msg)),
                    [Say (''Archiving '' @ archiveFile @ '' with '' @ compression),
                     Open archiveFile], [])
               | None \<Rightarrow>
                   (case io_Copy env output archiveFile of
                      Some msg \<Rightarrow>
                        (Some (Errorf (''Failed to compress '' @ archiveFile @ '': '' @ msg)),
                         [Say (''Archiving '' @ archiveFile @ '' with '' @ compression),
                          Open archiveFile, Copy output archiveFile],
                         [CloseFile archiveFile])
                    | None \<Rightarrow>
                        (None,
                         [Say (''Archiving '' @ archiveFile @ '' with '' @ compression),
                          Open archiveFile, Copy output archiveFile],
                         [CloseFile archiveFile]))))"

text \<open>
  Lines 152 to 250: what runs once the output file exists. The deferred calls run when
  \<^verbatim>\<open>PostProcess\<close> returns, the last deferred first; the \<^verbatim>\<open>Close\<close> of the output file itself
  is added by \<open>PostProcess\<close> below.
\<close>

definition withOutputFile ::
  "Env \<Rightarrow> Config \<Rightarrow> string list \<Rightarrow> string \<Rightarrow> results \<times> event list" where
  "withOutputFile env cfg files target =
     (case setupOutput env cfg (OutputFile target) target of
        (Inl err, tr1, deferred1) \<Rightarrow> (failWith err, tr1 @ deferred1)
      | (Inr output, tr1, deferred1) \<Rightarrow>
          (case buildArchive env cfg files output target of
             (Some err, tr2, deferred2) \<Rightarrow> (failWith err, tr1 @ tr2 @ deferred2 @ deferred1)
           | (None, tr2, deferred2) \<Rightarrow>
               ((Some \<lparr>Path = target\<rparr>, False, False, None),
                tr1 @ tr2 @ [Say (''Archive '' @ target @ '' completed'')]
                  @ deferred2 @ deferred1)))"

text \<open>
  Lines 117 to 132: the data for the template of the output path. The state value is known
  not to be of a foreign type here.
\<close>

definition generatedData :: "PostProcessor \<Rightarrow> SdkArtifact \<Rightarrow> (string \<rightharpoonup> string)" where
  "generatedData p artifact =
     (let m = (case State artifact ''generated_data'' of
                 MapValue (Some m) \<Rightarrow> m
               | _ \<Rightarrow> Map.empty)
      in m(''BuildName'' \<mapsto> PackerBuildName (config p),
           ''BuilderType'' \<mapsto> PackerBuilderType (config p)))"

definition PostProcess :: "Env \<Rightarrow> PostProcessor \<Rightarrow> SdkArtifact \<Rightarrow> outcome \<times> event list" where
  "PostProcess env p artifact =
     (case State artifact ''generated_data'' of
        OtherValue \<Rightarrow> (Panic, [])
      | _ \<Rightarrow>
        (case interpolate_Render env (OutputPath (config p)) (generatedData p artifact) of
           Inl msg \<Rightarrow>
             (Return (failWith (Errorf (''Error interpolating output value: '' @ msg))), [])
         | Inr target \<Rightarrow>
             (case os_MkdirAll env (filepath_Dir env target) of
                Some msg \<Rightarrow>
                  (Return (failWith (Errorf (''Unable to create dir for archive '' @ target
                                             @ '': '' @ msg))),
                   [Println target, MkdirAll (filepath_Dir env target)])
              | None \<Rightarrow>
                  (case os_Create env target of
                     Some msg \<Rightarrow>
                       (Return (failWith (Errorf (''Unable to create archive '' @ target
                                                  @ '': '' @ msg))),
                        [Println target, MkdirAll (filepath_Dir env target), Create target])
                   | None \<Rightarrow>
                       (case withOutputFile env (config p) (Files artifact) target of
                          (res, tr) \<Rightarrow>
                            (Return res,
                             [Println target, MkdirAll (filepath_Dir env target),
                              Create target] @ tr @ [CloseWriter (OutputFile target)]))))))"

subsection \<open>Observations\<close>

text \<open>The two derived fields of a config, archive kind first.\<close>

definition kinds :: "Config \<Rightarrow> string \<times> string" where
  "kinds c = (Archive c, Algorithm c)"

text \<open>The level a compression writer was constructed with, for those that take one.\<close>

fun levelOf :: "writer \<Rightarrow> int option" where
  "levelOf (BGZFWriter w l n) = Some l"
| "levelOf (BZIP2Writer w l) = Some l"
| "levelOf (LZ4Writer w l) = Some l"
| "levelOf (PgzipWriter w l b n) = Some l"
| "levelOf w = None"

subsection \<open>A concrete environment\<close>

text \<open>
  An environment to run the model in: a decoder that reads the three keys of the
  configuration file, templates that render to themselves, a file system on which every
  call succeeds but the opening of \<open>missing\<close>, four cores, and codecs that accept the
  levels -1 to 9 (bzip2: 1 to 9).
\<close>

definition testDecode :: "Config \<Rightarrow> raws \<Rightarrow> Config \<times> string option" where
  "testDecode c rs =
     (let m = map_of (concat rs)
      in (c\<lparr>OutputPath := (case m ''output'' of Some (RawString s) \<Rightarrow> s | _ \<Rightarrow> OutputPath c),
            Format := (case m ''format'' of Some (RawString s) \<Rightarrow> s | _ \<Rightarrow> Format c),
            CompressionLevel :=
              (case m ''compression_level'' of Some (RawInt i) \<Rightarrow> i | _ \<Rightarrow> CompressionLevel c)\<rparr>,
          None))"

definition gzipLevel :: "int \<Rightarrow> string option" where
  "gzipLevel l = (if l < - 1 \<or> 9 < l then Some ''gzip: invalid compression level'' else None)"

definition testEnv :: Env where
  "testEnv =
     \<lparr>config_Decode = testDecode,
      interpolate_Validate = (\<lambda>s. None),
      interpolate_Render = (\<lambda>s d. Inr s),
      filepath_Dir = (\<lambda>s. ''.''),
      filepath_ToSlash = (\<lambda>s. s),
      runtime_GOMAXPROCS = 4,
      os_MkdirAll = (\<lambda>s. None),
      os_Create = (\<lambda>s. None),
      os_Open = (\<lambda>s. if s = ''missing'' then Some ''no such file or directory'' else None),
      file_Stat = (\<lambda>s. None),
      tar_FileInfoHeader = (\<lambda>s. None),
      tar_WriteHeader = (\<lambda>w s. None),
      zip_Create = (\<lambda>w s. None),
      io_Copy = (\<lambda>w s. None),
      bgzf_NewWriterLevel = (\<lambda>w l n. gzipLevel l),
      bzip2_NewWriter =
        (\<lambda>w l. if l < 1 \<or> 9 < l then Some ''bzip2: invalid compression level'' else None),
      xz_NewWriter = (\<lambda>w. None),
      pgzip_NewWriterLevel = (\<lambda>w l. gzipLevel l)\<rparr>"

text \<open>A post-processor before \<^verbatim>\<open>Configure\<close>: every field has its zero value.\<close>

definition newPostProcessor :: PostProcessor where
  "newPostProcessor =
     \<lparr>config = \<lparr>PackerBuildName = [], PackerBuilderType = [], OutputPath = [], Format = [],
                 CompressionLevel = 0, Archive = [], Algorithm = []\<rparr>\<rparr>"

definition testArtifact :: "string list \<Rightarrow> SdkArtifact" where
  "testArtifact fs = \<lparr>Files = fs, State = (\<lambda>name. NilValue)\<rparr>"

text \<open>A raw configuration that gives the output path and the compression level.\<close>

definition testRaws :: "string \<Rightarrow> int \<Rightarrow> raws" where
  "testRaws output level =
     [[(''output'', RawString output), (''compression_level'', RawInt level)]]"

section \<open>The classifier\<close>

lemma isTokenChar_dot [simp]: "\<not> isTokenChar CHR ''.''"
  by (simp add: isTokenChar_def)

lemma FindAll_no_dot: "CHR ''.'' \<notin> set s \<Longrightarrow> FindAllStringSubmatch s = []"
  by (induction s) auto

lemma takeWhile_stop: "\<not> P d \<Longrightarrow> takeWhile P (cs @ d # q) = takeWhile P cs"
  by (induction cs) auto

lemma dropWhile_stop: "\<not> P d \<Longrightarrow> dropWhile P (cs @ d # q) = dropWhile P cs @ d # q"
  by (induction cs) auto

text \<open>A dot ends the run of the match before it, so the matches of a string split at
  any of its dots.\<close>

lemma FindAll_append_dot:
  "FindAllStringSubmatch (p @ CHR ''.'' # q) =
     FindAllStringSubmatch p @ FindAllStringSubmatch (CHR ''.'' # q)"
proof (induction p rule: FindAllStringSubmatch.induct)
  case 1
  show ?case by simp
next
  case (2 c cs)
  have tw: "takeWhile isTokenChar (cs @ CHR ''.'' # q) = takeWhile isTokenChar cs"
    by (rule takeWhile_stop) simp
  have dw: "dropWhile isTokenChar (cs @ CHR ''.'' # q) = dropWhile isTokenChar cs @ CHR ''.'' # q"
    by (rule dropWhile_stop) simp
  show ?case
  proof (cases "c = CHR ''.'' \<and> takeWhile isTokenChar cs \<noteq> []")
    case True
    with 2(1) have "FindAllStringSubmatch (dropWhile isTokenChar cs @ CHR ''.'' # q) =
       FindAllStringSubmatch (dropWhile isTokenChar cs) @ FindAllStringSubmatch (CHR ''.'' # q)"
      by simp
    with True tw dw show ?thesis by simp
  next
    case False
    with 2(2) have "FindAllStringSubmatch (cs @ CHR ''.'' # q) =
       FindAllStringSubmatch cs @ FindAllStringSubmatch (CHR ''.'' # q)"
      by blast
    with False tw show ?thesis by auto
  qed
qed

lemma FindAll_tar_zip:
  "FindAllStringSubmatch (p @ ''.tar.zip'') =
     FindAllStringSubmatch p @ [[''.tar'', ''tar''], [''.zip'', ''zip'']]"
  using FindAll_append_dot [of p "''tar.zip''"] by (simp add: isTokenChar_def)

text \<open>The two early exits of the method, in terms of the matches it found.\<close>

lemma detect_no_match:
  assumes "FindAllStringSubmatch
             (if Format c = [] then OutputPath c else OutputPath c @ ''.'' @ Format c) = []"
  shows "detectFromFilename c = c\<lparr>Algorithm := ''pgzip'', Archive := ''tar''\<rparr>"
  using assms by (simp add: detectFromFilename_def classifyMatches_def split: if_splits)

lemma detect_last_archive:
  assumes r: "FindAllStringSubmatch
                (if Format c = [] then OutputPath c else OutputPath c @ ''.'' @ Format c) = r"
    and ne: "r \<noteq> []"
    and l: "last r ! 1 = ''zip'' \<or> last r ! 1 = ''tar''"
  shows "detectFromFilename c = c\<lparr>Archive := last r ! 1\<rparr>"
proof -
  have n: "r ! (length r - 1) = last r"
    using ne by (simp add: last_conv_nth)
  have len: "length r \<noteq> 0"
    using ne by simp
  show ?thesis
  proof (cases "Format c = []")
    case True
    with r have "FindAllStringSubmatch (OutputPath c) = r" by simp
    with True n len l show ?thesis
      by (auto simp add: detectFromFilename_def classifyMatches_def Let_def)
  next
    case False
    with r have "FindAllStringSubmatch (OutputPath c @ ''.'' @ Format c) = r" by simp
    with False n len l show ?thesis
      by (auto simp add: detectFromFilename_def classifyMatches_def Let_def)
  qed
qed


lemma classifyMatches_level:
  "classifyMatches r (c\<lparr>CompressionLevel := l\<rparr>) = (classifyMatches r c)\<lparr>CompressionLevel := l\<rparr>"
  by (simp add: classifyMatches_def Let_def split: option.splits)

lemma classifyMatches_keeps_level:
  "CompressionLevel (classifyMatches r c) = CompressionLevel c"
  by (simp add: classifyMatches_def Let_def split: option.splits)


lemma detect_level:
  "detectFromFilename (c\<lparr>CompressionLevel := l\<rparr>) = (detectFromFilename c)\<lparr>CompressionLevel := l\<rparr>"
  by (simp add: detectFromFilename_def classifyMatches_level)

lemma detect_keeps_level [simp]:
  "CompressionLevel (detectFromFilename c) = CompressionLevel c"
  by (simp add: detectFromFilename_def classifyMatches_keeps_level)

lemmas detect_eval =
  detectFromFilename_def classifyMatches_def isTokenChar_def extensions_def kinds_def Let_def

text \<open>
  Claim C1. Run on a config whose derived fields are still unset and whose explicit format
  is empty, \<open>detectFromFilename\<close> gives: "x.tar" tar and no compression, "x.tar.gz" tar and
  pgzip, "x.tar.zip" zip and no compression, "x.zip" zip and no compression, "x.lz4" no
  archive and lz4, "x.unknownext" tar and pgzip. And whenever the pattern finds no match in
  the string scanned, as in every name without a dot, the result is tar and pgzip, whatever
  the derived fields held before.
\<close>

theorem detectFromFilename_table:
  "kinds (detectFromFilename (c\<lparr>OutputPath := ''x.tar'', Format := '''',
                                 Archive := '''', Algorithm := ''''\<rparr>)) = (''tar'', '''')
   \<and> kinds (detectFromFilename (c\<lparr>OutputPath := ''x.tar.gz'', Format := '''',
                                 Archive := '''', Algorithm := ''''\<rparr>)) = (''tar'', ''pgzip'')
   \<and> kinds (detectFromFilename (c\<lparr>OutputPath := ''x.tar.zip'', Format := '''',
                                 Archive := '''', Algorithm := ''''\<rparr>)) = (''zip'', '''')
   \<and> kinds (detectFromFilename (c\<lparr>OutputPath := ''x.zip'', Format := '''',
                                 Archive := '''', Algorithm := ''''\<rparr>)) = (''zip'', '''')
   \<and> kinds (detectFromFilename (c\<lparr>OutputPath := ''x.lz4'', Format := '''',
                                 Archive := '''', Algorithm := ''''\<rparr>)) = ('''', ''lz4'')
   \<and> kinds (detectFromFilename (c\<lparr>OutputPath := ''x.unknownext'', Format := '''',
                                 Archive := '''', Algorithm := ''''\<rparr>)) = (''tar'', ''pgzip'')
   \<and> (FindAllStringSubmatch
         (if Format c = '''' then OutputPath c else OutputPath c @ ''.'' @ Format c) = []
       \<longrightarrow> kinds (detectFromFilename c) = (''tar'', ''pgzip''))
   \<and> (Format c = '''' \<and> CHR ''.'' \<notin> set (OutputPath c)
       \<longrightarrow> kinds (detectFromFilename c) = (''tar'', ''pgzip''))"
proof -
  have none: "kinds (detectFromFilename c) = (''tar'', ''pgzip'')"
    if "FindAllStringSubmatch
          (if Format c = '''' then OutputPath c else OutputPath c @ ''.'' @ Format c) = []"
    using detect_no_match [OF that] by (simp add: kinds_def)
  have nodot: "kinds (detectFromFilename c) = (''tar'', ''pgzip'')"
    if "Format c = '''' \<and> CHR ''.'' \<notin> set (OutputPath c)"
    using that none by (simp add: FindAll_no_dot)
  show ?thesis
    using none nodot by (simp add: detect_eval)
qed

theorem detectFromFilename_table_witness:
  "FindAllStringSubmatch ''out'' = []
   \<and> CHR ''.'' \<notin> set ''out''
   \<and> kinds (detectFromFilename (config newPostProcessor\<lparr>OutputPath := ''out''\<rparr>))
       = (''tar'', ''pgzip'')"
  using detectFromFilename_table [of "config newPostProcessor\<lparr>OutputPath := ''out''\<rparr>"]
  by (simp add: newPostProcessor_def)

text \<open>
  Claim C5. When the capture group of the last match in the string scanned is "zip" or
  "tar", the method stores it in \<open>Archive\<close> and changes nothing else: \<open>Algorithm\<close> keeps the
  value it had, the empty string when it was unset. So a string scanned that ends in
  ".tar.zip" gives the archive kind zip: the last match wins over the one before it.
\<close>

theorem detectFromFilename_archive_suffix:
  "(\<forall>r. FindAllStringSubmatch
          (if Format c = '''' then OutputPath c else OutputPath c @ ''.'' @ Format c) = r
        \<and> r \<noteq> [] \<and> (last r ! 1 = ''zip'' \<or> last r ! 1 = ''tar'')
        \<longrightarrow> detectFromFilename c = c\<lparr>Archive := last r ! 1\<rparr>
            \<and> Archive (detectFromFilename c) = last r ! 1
            \<and> Algorithm (detectFromFilename c) = Algorithm c)
   \<and> (\<forall>s. (if Format c = '''' then OutputPath c else OutputPath c @ ''.'' @ Format c)
            = s @ ''.tar.zip''
        \<longrightarrow> Archive (detectFromFilename c) = ''zip''
            \<and> Algorithm (detectFromFilename c) = Algorithm c)"
proof (intro conjI allI impI)
  fix r
  assume a: "FindAllStringSubmatch
               (if Format c = '''' then OutputPath c else OutputPath c @ ''.'' @ Format c) = r
             \<and> r \<noteq> [] \<and> (last r ! 1 = ''zip'' \<or> last r ! 1 = ''tar'')"
  then have e: "detectFromFilename c = c\<lparr>Archive := last r ! 1\<rparr>"
    using detect_last_archive [of c r] by blast
  show "detectFromFilename c = c\<lparr>Archive := last r ! 1\<rparr>" by (rule e)
  show "Archive (detectFromFilename c) = last r ! 1" by (simp add: e)
  show "Algorithm (detectFromFilename c) = Algorithm c" by (simp add: e)
next
  fix s
  assume s: "(if Format c = '''' then OutputPath c else OutputPath c @ ''.'' @ Format c)
               = s @ ''.tar.zip''"
  let ?r = "FindAllStringSubmatch s @ [[''.tar'', ''tar''], [''.zip'', ''zip'']]"
  have "FindAllStringSubmatch
          (if Format c = '''' then OutputPath c else OutputPath c @ ''.'' @ Format c) = ?r"
    unfolding s by (rule FindAll_tar_zip)
  then have e: "detectFromFilename c = c\<lparr>Archive := last ?r ! 1\<rparr>"
    by (rule detect_last_archive) simp_all
  show "Archive (detectFromFilename c) = ''zip''" by (simp add: e)
  show "Algorithm (detectFromFilename c) = Algorithm c" by (simp add: e)
qed

theorem detectFromFilename_archive_suffix_witness:
  "FindAllStringSubmatch ''backup.tar.zip'' = [[''.tar'', ''tar''], [''.zip'', ''zip'']]
   \<and> Archive (detectFromFilename (config newPostProcessor\<lparr>OutputPath := ''backup.tar'',
                                                            Format := ''zip''\<rparr>)) = ''zip''
   \<and> Algorithm (detectFromFilename (config newPostProcessor\<lparr>OutputPath := ''backup.tar'',
                                                              Format := ''zip''\<rparr>)) = ''''"
proof -
  let ?c = "config newPostProcessor\<lparr>OutputPath := ''backup.tar'', Format := ''zip''\<rparr>"
  have m: "FindAllStringSubmatch ''backup.tar.zip'' = [[''.tar'', ''tar''], [''.zip'', ''zip'']]"
    by (simp add: isTokenChar_def)
  have f: "(if Format ?c = '''' then OutputPath ?c else OutputPath ?c @ ''.'' @ Format ?c)
             = ''backup.tar.zip''"
    by simp
  from detectFromFilename_archive_suffix [of ?c] f m
  have "Archive (detectFromFilename ?c) = ''zip'' \<and> Algorithm (detectFromFilename ?c) = Algorithm ?c"
    by simp
  then show ?thesis
    using m by (simp add: newPostProcessor_def)
qed



section \<open>Configure and the compression level\<close>

text \<open>What \<open>Configure\<close> stores once decoding has succeeded.\<close>

lemma Configure_decoded:
  assumes "config_Decode env (config p) rs = (d, None)"
  shows "Configure env p rs =
     (p\<lparr>config := detectFromFilename
          (d\<lparr>OutputPath := (if OutputPath d = [] then ''packer_{{.BuildName}}_{{.BuilderType}}''
                             else OutputPath d),
             CompressionLevel :=
               (if 9 < CompressionLevel d then 9
                else if CompressionLevel d = - 1 \<or> CompressionLevel d = 0 then - 1
                else CompressionLevel d)\<rparr>)\<rparr>,
      case interpolate_Validate env
             (if OutputPath d = [] then ''packer_{{.BuildName}}_{{.BuilderType}}''
              else OutputPath d) of
        Some msg \<Rightarrow> Some (MultiError [Errorf (''Error parsing target template: '' @ msg)])
      | None \<Rightarrow> None)"
  using assms
  by (simp add: Configure_def Let_def pgzip_BestCompression_def pgzip_DefaultCompression_def
           split: option.splits)

lemma Configure_stored_level:
  assumes "config_Decode env (config p) rs = (d, None)"
  shows "CompressionLevel (config (fst (Configure env p rs))) =
     (if 9 < CompressionLevel d then 9
      else if CompressionLevel d = - 1 \<or> CompressionLevel d = 0 then - 1
      else CompressionLevel d)"
  by (simp add: Configure_decoded [OF assms])

lemmas run_eval =
  Configure_def testEnv_def testDecode_def testRaws_def newPostProcessor_def testArtifact_def
  detectFromFilename_def classifyMatches_def isTokenChar_def extensions_def Let_def
  pgzip_BestCompression_def pgzip_DefaultCompression_def
  PostProcess_def generatedData_def withOutputFile_def setupOutput_def buildArchive_def
  writerCase_def makePgzipWriter_def makeBGZFWriter_def makeBZIP2Writer_def makeLZ4Writer_def
  makeXZWriter_def gzipLevel_def failWith_def fmt_d_def fmt_v_def digits.simps

text \<open>
  Claim C4. Two raw configurations that decode alike but for the level, one to a level
  above 9 and the other to 9, leave \<open>Configure\<close> with the same result, the stored level
  being 9 and not the default, and the following \<open>PostProcess\<close> runs are the same. The same
  holds for the levels 0 and -1, the stored level being the library default. After a
  successful decoding the stored level is never 0.
\<close>

theorem Configure_level_normalization:
  "(config_Decode env (config p) rs = (d\<lparr>CompressionLevel := l\<rparr>, None)
      \<and> config_Decode env (config p) rs' = (d\<lparr>CompressionLevel := 9\<rparr>, None) \<and> 9 < l
    \<longrightarrow> Configure env p rs = Configure env p rs'
        \<and> CompressionLevel (config (fst (Configure env p rs))) = pgzip_BestCompression
        \<and> pgzip_BestCompression = 9
        \<and> CompressionLevel (config (fst (Configure env p rs))) \<noteq> pgzip_DefaultCompression
        \<and> PostProcess env (fst (Configure env p rs)) a
            = PostProcess env (fst (Configure env p rs')) a)
   \<and> (config_Decode env (config p) rs = (d\<lparr>CompressionLevel := 0\<rparr>, None)
      \<and> config_Decode env (config p) rs' = (d\<lparr>CompressionLevel := - 1\<rparr>, None)
    \<longrightarrow> Configure env p rs = Configure env p rs'
        \<and> CompressionLevel (config (fst (Configure env p rs))) = pgzip_DefaultCompression
        \<and> pgzip_DefaultCompression = - 1
        \<and> PostProcess env (fst (Configure env p rs)) a
            = PostProcess env (fst (Configure env p rs')) a)
   \<and> (config_Decode env (config p) rs = (d, None)
    \<longrightarrow> CompressionLevel (config (fst (Configure env p rs))) \<noteq> 0)"
proof (intro conjI impI)
  assume a: "config_Decode env (config p) rs = (d\<lparr>CompressionLevel := l\<rparr>, None)
      \<and> config_Decode env (config p) rs' = (d\<lparr>CompressionLevel := 9\<rparr>, None) \<and> 9 < l"
  then have 1: "config_Decode env (config p) rs = (d\<lparr>CompressionLevel := l\<rparr>, None)"
    and 2: "config_Decode env (config p) rs' = (d\<lparr>CompressionLevel := 9\<rparr>, None)"
    and l: "9 < l"
    by simp_all
  show e: "Configure env p rs = Configure env p rs'"
    using l by (simp add: Configure_decoded [OF 1] Configure_decoded [OF 2])
  show "CompressionLevel (config (fst (Configure env p rs))) = pgzip_BestCompression"
    using l by (simp add: Configure_stored_level [OF 1] pgzip_BestCompression_def)
  show "pgzip_BestCompression = 9"
    by (simp add: pgzip_BestCompression_def)
  show "CompressionLevel (config (fst (Configure env p rs))) \<noteq> pgzip_DefaultCompression"
    using l by (simp add: Configure_stored_level [OF 1] pgzip_DefaultCompression_def)
  show "PostProcess env (fst (Configure env p rs)) a
          = PostProcess env (fst (Configure env p rs')) a"
    by (simp add: e)
next
  assume a: "config_Decode env (config p) rs = (d\<lparr>CompressionLevel := 0\<rparr>, None)
      \<and> config_Decode env (config p) rs' = (d\<lparr>CompressionLevel := - 1\<rparr>, None)"
  then have 1: "config_Decode env (config p) rs = (d\<lparr>CompressionLevel := 0\<rparr>, None)"
    and 2: "config_Decode env (config p) rs' = (d\<lparr>CompressionLevel := - 1\<rparr>, None)"
    by simp_all
  show e: "Configure env p rs = Configure env p rs'"
    by (simp add: Configure_decoded [OF 1] Configure_decoded [OF 2])
  show "CompressionLevel (config (fst (Configure env p rs))) = pgzip_DefaultCompression"
    by (simp add: Configure_stored_level [OF 1] pgzip_DefaultCompression_def)
  show "pgzip_DefaultCompression = - 1"
    by (simp add: pgzip_DefaultCompression_def)
  show "PostProcess env (fst (Configure env p rs)) a
          = PostProcess env (fst (Configure env p rs')) a"
    by (simp add: e)
next
  assume "config_Decode env (config p) rs = (d, None)"
  then show "CompressionLevel (config (fst (Configure env p rs))) \<noteq> 0"
    by (simp add: Configure_stored_level)
qed

theorem Configure_level_normalization_witness:
  "Configure testEnv newPostProcessor (testRaws ''x.gz'' 15)
     = Configure testEnv newPostProcessor (testRaws ''x.gz'' 9)
   \<and> CompressionLevel (config (fst (Configure testEnv newPostProcessor (testRaws ''x.gz'' 15))))
     = pgzip_BestCompression
   \<and> Configure testEnv newPostProcessor (testRaws ''x.gz'' 0)
     = Configure testEnv newPostProcessor (testRaws ''x.gz'' (- 1))
   \<and> CompressionLevel (config (fst (Configure testEnv newPostProcessor (testRaws ''x.gz'' 0))))
     = pgzip_DefaultCompression"
proof -
  let ?d = "(config newPostProcessor)\<lparr>OutputPath := ''x.gz''\<rparr>"
  have dec: "config_Decode testEnv (config newPostProcessor) (testRaws ''x.gz'' k)
               = (?d\<lparr>CompressionLevel := k\<rparr>, None)" for k
    by (simp add: testEnv_def testDecode_def testRaws_def newPostProcessor_def)
  have high: "config_Decode testEnv (config newPostProcessor) (testRaws ''x.gz'' 15)
                = (?d\<lparr>CompressionLevel := 15\<rparr>, None)
              \<and> config_Decode testEnv (config newPostProcessor) (testRaws ''x.gz'' 9)
                = (?d\<lparr>CompressionLevel := 9\<rparr>, None) \<and> (9::int) < 15"
    using dec by simp
  have low: "config_Decode testEnv (config newPostProcessor) (testRaws ''x.gz'' 0)
                = (?d\<lparr>CompressionLevel := 0\<rparr>, None)
              \<and> config_Decode testEnv (config newPostProcessor) (testRaws ''x.gz'' (- 1))
                = (?d\<lparr>CompressionLevel := - 1\<rparr>, None)"
    using dec by simp
  note a = Configure_level_normalization
         [where env = testEnv and p = newPostProcessor and rs = "testRaws ''x.gz'' 15"
            and d = ?d and l = 15 and rs' = "testRaws ''x.gz'' 9",
          THEN conjunct1, THEN mp, OF high]
  note b = Configure_level_normalization
         [where env = testEnv and p = newPostProcessor and rs = "testRaws ''x.gz'' 0"
            and d = ?d and rs' = "testRaws ''x.gz'' (- 1)",
          THEN conjunct2, THEN conjunct1, THEN mp, OF low]
  from a b show ?thesis by blast
qed

section \<open>The writer factories\<close>

text \<open>
  Claim C7. When the codec's constructor rejects the level, \<open>makeBGZFWriter\<close> and
  \<open>makePgzipWriter\<close> return \<open>ErrInvalidCompressionLevel\<close> and not the codec's own error; it is
  the only error either of them ever returns.
\<close>

theorem gzip_factories_uniform_error:
  "(bgzf_NewWriterLevel env out level (runtime_GOMAXPROCS env) = Some msg
      \<longrightarrow> makeBGZFWriter env out level = Inl ErrInvalidCompressionLevel
          \<and> makeBGZFWriter env out level \<noteq> Inl (External msg))
   \<and> (pgzip_NewWriterLevel env out level = Some msg
      \<longrightarrow> makePgzipWriter env out level = Inl ErrInvalidCompressionLevel
          \<and> makePgzipWriter env out level \<noteq> Inl (External msg))
   \<and> (makeBGZFWriter env out level = Inl err \<longrightarrow> err = ErrInvalidCompressionLevel)
   \<and> (makePgzipWriter env out level = Inl err \<longrightarrow> err = ErrInvalidCompressionLevel)"
  by (auto simp add: makeBGZFWriter_def makePgzipWriter_def split: option.splits)

theorem gzip_factories_uniform_error_witness:
  "bgzf_NewWriterLevel testEnv (OutputFile ''out.bgzf'') (- 5) (runtime_GOMAXPROCS testEnv)
     = Some ''gzip: invalid compression level''
   \<and> pgzip_NewWriterLevel testEnv (OutputFile ''out.gz'') (- 5)
     = Some ''gzip: invalid compression level''
   \<and> makeBGZFWriter testEnv (OutputFile ''out.bgzf'') (- 5) = Inl ErrInvalidCompressionLevel
   \<and> makePgzipWriter testEnv (OutputFile ''out.gz'') (- 5) = Inl ErrInvalidCompressionLevel"
proof -
  have b: "bgzf_NewWriterLevel testEnv (OutputFile ''out.bgzf'') (- 5) (runtime_GOMAXPROCS testEnv)
             = Some ''gzip: invalid compression level''"
    by (simp add: testEnv_def gzipLevel_def)
  have g: "pgzip_NewWriterLevel testEnv (OutputFile ''out.gz'') (- 5)
             = Some ''gzip: invalid compression level''"
    by (simp add: testEnv_def gzipLevel_def)
  note 1 = gzip_factories_uniform_error
             [where env = testEnv and out = "OutputFile ''out.bgzf''" and level = "- 5"
                and msg = "''gzip: invalid compression level''",
              THEN conjunct1, THEN mp, OF b, THEN conjunct1]
  note 2 = gzip_factories_uniform_error
             [where env = testEnv and out = "OutputFile ''out.gz''" and level = "- 5"
                and msg = "''gzip: invalid compression level''",
              THEN conjunct2, THEN conjunct1, THEN mp, OF g, THEN conjunct1]
  from b g 1 2 show ?thesis by blast
qed

text \<open>What the switch on the algorithm does for bzip2.\<close>

lemma setupOutput_bzip2:
  assumes "Algorithm c = ''bzip2''"
  shows "setupOutput env c f t =
     writerCase ''bzip2''
       (''Using bzip2 compression with 1 core for '' @ t @ '' (library does not support MT)'')
       (makeBZIP2Writer env f (CompressionLevel c))"
  using assms by (simp add: setupOutput_def)

text \<open>
  Claim C6, as amended. \<open>makeBZIP2Writer\<close> asks the codec for level 9 when the level it is
  given is at most 0 and for that level otherwise; it has no upper bound of its own. In
  the pipeline the level it is given is the one \<open>Configure\<close> stored, which is never above 9:
  a configured level \<open>l\<close> reaches the codec as 9 when \<open>l \<le> 0\<close>, and as the smaller of \<open>l\<close> and 9
  otherwise.
\<close>

theorem makeBZIP2Writer_level:
  "makeBZIP2Writer env out l =
     (case bzip2_NewWriter env out (if l \<le> 0 then 9 else l) of
        Some msg \<Rightarrow> Inl (External msg)
      | None \<Rightarrow> Inr (BZIP2Writer out (if l \<le> 0 then 9 else l)))
   \<and> (config_Decode env (config p) rs = (d, None)
       \<and> Algorithm (config (fst (Configure env p rs))) = ''bzip2''
      \<longrightarrow> fst (setupOutput env (config (fst (Configure env p rs))) (OutputFile t) t) =
            (case bzip2_NewWriter env (OutputFile t)
                    (if CompressionLevel d \<le> 0 then 9 else min (CompressionLevel d) 9) of
               Some msg \<Rightarrow> Inl (Errorf (''error creating bzip2 writer: '' @ msg))
             | None \<Rightarrow>
                 Inr (BZIP2Writer (OutputFile t)
                        (if CompressionLevel d \<le> 0 then 9 else min (CompressionLevel d) 9))))"
proof (intro conjI impI)
  show "makeBZIP2Writer env out l =
     (case bzip2_NewWriter env out (if l \<le> 0 then 9 else l) of
        Some msg \<Rightarrow> Inl (External msg)
      | None \<Rightarrow> Inr (BZIP2Writer out (if l \<le> 0 then 9 else l)))"
    by (simp add: makeBZIP2Writer_def Let_def not_less)
next
  assume a: "config_Decode env (config p) rs = (d, None)
       \<and> Algorithm (config (fst (Configure env p rs))) = ''bzip2''"
  let ?c = "config (fst (Configure env p rs))"
  let ?k = "if CompressionLevel d \<le> 0 then 9 else min (CompressionLevel d) 9"
  from a have lev: "CompressionLevel ?c =
     (if 9 < CompressionLevel d then 9
      else if CompressionLevel d = - 1 \<or> CompressionLevel d = 0 then - 1
      else CompressionLevel d)"
    by (simp add: Configure_stored_level)
  have k: "(if CompressionLevel ?c > 0 then CompressionLevel ?c else 9) = ?k"
    unfolding lev by (simp add: min_def)
  have "makeBZIP2Writer env (OutputFile t) (CompressionLevel ?c) =
     (case bzip2_NewWriter env (OutputFile t) ?k of
        Some msg \<Rightarrow> Inl (External msg)
      | None \<Rightarrow> Inr (BZIP2Writer (OutputFile t) ?k))"
    unfolding makeBZIP2Writer_def Let_def k ..
  with a show "fst (setupOutput env ?c (OutputFile t) t) =
            (case bzip2_NewWriter env (OutputFile t) ?k of
               Some msg \<Rightarrow> Inl (Errorf (''error creating bzip2 writer: '' @ msg))
             | None \<Rightarrow> Inr (BZIP2Writer (OutputFile t) ?k))"
    by (simp add: setupOutput_bzip2 writerCase_def split: option.splits)
qed

theorem makeBZIP2Writer_level_witness:
  "config_Decode testEnv (config newPostProcessor) (testRaws ''x.bzip2'' 12)
     = ((config newPostProcessor)\<lparr>OutputPath := ''x.bzip2'', CompressionLevel := 12\<rparr>, None)
   \<and> Algorithm (config (fst (Configure testEnv newPostProcessor (testRaws ''x.bzip2'' 12))))
     = ''bzip2''
   \<and> fst (setupOutput testEnv
             (config (fst (Configure testEnv newPostProcessor (testRaws ''x.bzip2'' 12))))
             (OutputFile ''x.bzip2'') ''x.bzip2'')
     = Inr (BZIP2Writer (OutputFile ''x.bzip2'') 9)"
proof -
  let ?d = "(config newPostProcessor)\<lparr>OutputPath := ''x.bzip2'', CompressionLevel := 12\<rparr>"
  have dec: "config_Decode testEnv (config newPostProcessor) (testRaws ''x.bzip2'' 12)
               = (?d, None)"
    by (simp add: testEnv_def testDecode_def testRaws_def newPostProcessor_def)
  have alg: "Algorithm (config (fst (Configure testEnv newPostProcessor (testRaws ''x.bzip2'' 12))))
               = ''bzip2''"
    by (simp add: run_eval)
  note s = makeBZIP2Writer_level
             [where env = testEnv and p = newPostProcessor and rs = "testRaws ''x.bzip2'' 12"
                and d = ?d and t = "''x.bzip2''",
              THEN conjunct2, THEN mp, OF conjI, OF dec alg]
  have "fst (setupOutput testEnv
             (config (fst (Configure testEnv newPostProcessor (testRaws ''x.bzip2'' 12))))
             (OutputFile ''x.bzip2'') ''x.bzip2'')
     = Inr (BZIP2Writer (OutputFile ''x.bzip2'') 9)"
    unfolding s by (simp add: testEnv_def)
  with dec alg show ?thesis by blast
qed

text \<open>
  Claim C6 as stated fails: with bzip2 and a configured level of 15, the level is not
  used verbatim. \<open>Configure\<close> stores 9 and the bzip2 writer is built with 9.
\<close>

theorem bzip2_pipeline_clamps_counterexample:
  "CompressionLevel (config (fst (Configure testEnv newPostProcessor (testRaws ''x.bzip2'' 15))))
     = 9
   \<and> Algorithm (config (fst (Configure testEnv newPostProcessor (testRaws ''x.bzip2'' 15))))
     = ''bzip2''
   \<and> fst (setupOutput testEnv
             (config (fst (Configure testEnv newPostProcessor (testRaws ''x.bzip2'' 15))))
             (OutputFile ''x.bzip2'') ''x.bzip2'')
     = Inr (BZIP2Writer (OutputFile ''x.bzip2'') 9)
   \<and> fst (setupOutput testEnv
             (config (fst (Configure testEnv newPostProcessor (testRaws ''x.bzip2'' 15))))
             (OutputFile ''x.bzip2'') ''x.bzip2'')
     \<noteq> Inr (BZIP2Writer (OutputFile ''x.bzip2'') 15)"
  by (simp add: run_eval)

lemma Configure_success_decoded:
  assumes "Configure env p rs = (p', None)"
  shows "\<exists>d. config_Decode env (config p) rs = (d, None)"
  using assms
  by (cases "config_Decode env (config p) rs") (auto simp add: Configure_def split: option.splits)

text \<open>The writer the switch on the algorithm makes never has a level other than the one
  its factory derives from the stored level.\<close>

lemma setupOutput_levelOf:
  assumes "setupOutput env c (OutputFile t) t = (Inr w, tr, df)" and "levelOf w = Some k"
  shows "k = CompressionLevel c
         \<or> (Algorithm c = ''bzip2'' \<and> k = (if CompressionLevel c > 0 then CompressionLevel c else 9))
         \<or> (Algorithm c = ''lz4'' \<and> k = (if CompressionLevel c > 0 then CompressionLevel c else 0))"
  using assms
  by (auto simp add: setupOutput_def writerCase_def makeBGZFWriter_def makeBZIP2Writer_def
        makeLZ4Writer_def makeXZWriter_def makePgzipWriter_def Let_def
      split: if_splits option.splits)

text \<open>
  Claim C10. After a successful \<open>Configure\<close> the stored level is at most 9 and is not 0: it
  is -1 when the decoded level was 0 or -1, or lies between 1 and 9 and is the smaller of
  the decoded level and 9, or is the decoded level, unchanged, below -1. The step does not
  look at the algorithm, and every compression writer \<open>PostProcess\<close> then sets up is built
  with a level of at most 9; the bzip2 writer with a level between 1 and 9.
\<close>

theorem Configure_level_invariant:
  assumes "Configure env p rs = (p', None)"
  shows "CompressionLevel (config p') \<le> pgzip_BestCompression
     \<and> CompressionLevel (config p') \<le> 9
     \<and> CompressionLevel (config p') \<noteq> 0
     \<and> (\<exists>d. config_Decode env (config p) rs = (d, None)
          \<and> (CompressionLevel (config p') = - 1
                \<and> (CompressionLevel d = 0 \<or> CompressionLevel d = - 1)
              \<or> 1 \<le> CompressionLevel (config p') \<and> CompressionLevel (config p') \<le> 9
                \<and> CompressionLevel (config p') = min (CompressionLevel d) 9
              \<or> CompressionLevel (config p') < - 1
                \<and> CompressionLevel (config p') = CompressionLevel d))
     \<and> (\<forall>t w tr df k. setupOutput env (config p') (OutputFile t) t = (Inr w, tr, df)
            \<and> levelOf w = Some k \<longrightarrow> k \<le> 9)
     \<and> (\<forall>t w tr df. Algorithm (config p') = ''bzip2''
            \<and> setupOutput env (config p') (OutputFile t) t = (Inr w, tr, df)
          \<longrightarrow> (\<exists>k. w = BZIP2Writer (OutputFile t) k \<and> 1 \<le> k \<and> k \<le> 9))"
proof -
  from assms obtain d where d: "config_Decode env (config p) rs = (d, None)"
    using Configure_success_decoded by blast
  have p': "p' = fst (Configure env p rs)"
    by (simp add: assms)
  have lev: "CompressionLevel (config p') =
     (if 9 < CompressionLevel d then 9
      else if CompressionLevel d = - 1 \<or> CompressionLevel d = 0 then - 1
      else CompressionLevel d)"
    unfolding p' by (rule Configure_stored_level [OF d])
  have le: "CompressionLevel (config p') \<le> 9"
    unfolding lev by simp
  have nz: "CompressionLevel (config p') \<noteq> 0"
    unfolding lev by simp
  have three: "CompressionLevel (config p') = - 1
                \<and> (CompressionLevel d = 0 \<or> CompressionLevel d = - 1)
              \<or> 1 \<le> CompressionLevel (config p') \<and> CompressionLevel (config p') \<le> 9
                \<and> CompressionLevel (config p') = min (CompressionLevel d) 9
              \<or> CompressionLevel (config p') < - 1
                \<and> CompressionLevel (config p') = CompressionLevel d"
    unfolding lev by (simp add: min_def) arith
  have any: "k \<le> 9"
    if "setupOutput env (config p') (OutputFile t) t = (Inr w, tr, df) \<and> levelOf w = Some k"
    for t w tr df k
    using setupOutput_levelOf [of env "config p'" t w tr df k] that le
    by (auto split: if_splits)
  have bz: "\<exists>k. w = BZIP2Writer (OutputFile t) k \<and> 1 \<le> k \<and> k \<le> 9"
    if "Algorithm (config p') = ''bzip2''
        \<and> setupOutput env (config p') (OutputFile t) t = (Inr w, tr, df)"
    for t w tr df
    using that le
    by (auto simp add: setupOutput_bzip2 writerCase_def makeBZIP2Writer_def Let_def
          split: option.splits if_splits)
  show ?thesis
    using d le nz three any bz by (simp add: pgzip_BestCompression_def)
qed

theorem Configure_level_invariant_witness:
  "Configure testEnv newPostProcessor (testRaws ''disk.bzip2'' 0)
     = (newPostProcessor\<lparr>config := (config newPostProcessor)
          \<lparr>OutputPath := ''disk.bzip2'', CompressionLevel := - 1, Algorithm := ''bzip2''\<rparr>\<rparr>, None)
   \<and> setupOutput testEnv
        ((config newPostProcessor)
           \<lparr>OutputPath := ''disk.bzip2'', CompressionLevel := - 1, Algorithm := ''bzip2''\<rparr>)
        (OutputFile ''disk.bzip2'') ''disk.bzip2''
     = (Inr (BZIP2Writer (OutputFile ''disk.bzip2'') 9),
        [Say ''Using bzip2 compression with 1 core for disk.bzip2 (library does not support MT)'',
         NewWriter (BZIP2Writer (OutputFile ''disk.bzip2'') 9)],
        [CloseWriter (BZIP2Writer (OutputFile ''disk.bzip2'') 9)])
   \<and> levelOf (BZIP2Writer (OutputFile ''disk.bzip2'') 9) = Some 9
   \<and> CompressionLevel ((config newPostProcessor)
        \<lparr>OutputPath := ''disk.bzip2'', CompressionLevel := - 1, Algorithm := ''bzip2''\<rparr>) \<le> 9"
proof -
  let ?c = "(config newPostProcessor)
              \<lparr>OutputPath := ''disk.bzip2'', CompressionLevel := - 1, Algorithm := ''bzip2''\<rparr>"
  have run: "Configure testEnv newPostProcessor (testRaws ''disk.bzip2'' 0)
               = (newPostProcessor\<lparr>config := ?c\<rparr>, None)"
    by (simp add: run_eval)
  have out: "setupOutput testEnv ?c (OutputFile ''disk.bzip2'') ''disk.bzip2''
     = (Inr (BZIP2Writer (OutputFile ''disk.bzip2'') 9),
        [Say ''Using bzip2 compression with 1 core for disk.bzip2 (library does not support MT)'',
         NewWriter (BZIP2Writer (OutputFile ''disk.bzip2'') 9)],
        [CloseWriter (BZIP2Writer (OutputFile ''disk.bzip2'') 9)])"
    by (simp add: run_eval)
  from Configure_level_invariant [OF run]
  have "CompressionLevel (config (newPostProcessor\<lparr>config := ?c\<rparr>)) \<le> 9"
    by blast
  then have "CompressionLevel ?c \<le> 9" by simp
  with run out show ?thesis by simp
qed

section \<open>PostProcess\<close>

text \<open>Only the switch on the algorithm reads the level, and not in its xz case.\<close>

lemma buildArchive_level:
  "buildArchive env (c\<lparr>CompressionLevel := l\<rparr>) files w t = buildArchive env c files w t"
  by (simp add: buildArchive_def Let_def cong: if_cong)

lemma setupOutput_xz_level:
  "Algorithm c = ''xz'' \<Longrightarrow>
     setupOutput env (c\<lparr>CompressionLevel := l\<rparr>) f t = setupOutput env c f t"
  by (simp add: setupOutput_def)

lemma withOutputFile_xz_level:
  "Algorithm c = ''xz'' \<Longrightarrow>
     withOutputFile env (c\<lparr>CompressionLevel := l\<rparr>) files t = withOutputFile env c files t"
  by (simp add: withOutputFile_def setupOutput_xz_level buildArchive_level
        cong: prod.case_cong sum.case_cong)

lemma PostProcess_xz_level:
  assumes "Algorithm (config p) = ''xz''"
  shows "PostProcess env (p\<lparr>config := (config p)\<lparr>CompressionLevel := l\<rparr>\<rparr>) a = PostProcess env p a"
  using assms
  by (simp add: PostProcess_def generatedData_def withOutputFile_xz_level
        cong: stateValue.case_cong sum.case_cong option.case_cong)

text \<open>
  Claim C9. With the algorithm xz the level has no effect: for any two levels the switch
  on the algorithm sets up the same writer and \<open>PostProcess\<close> returns the same results with
  the same trace of effects; and two raw configurations that decode alike but for the
  level, and are classified as xz, lead through \<open>Configure\<close> to the same run of
  \<open>PostProcess\<close>.
\<close>

theorem xz_ignores_level:
  "(Algorithm (config p) = ''xz''
      \<longrightarrow> setupOutput env ((config p)\<lparr>CompressionLevel := l1\<rparr>) f t
            = setupOutput env ((config p)\<lparr>CompressionLevel := l2\<rparr>) f t
          \<and> PostProcess env (p\<lparr>config := (config p)\<lparr>CompressionLevel := l1\<rparr>\<rparr>) a
            = PostProcess env (p\<lparr>config := (config p)\<lparr>CompressionLevel := l2\<rparr>\<rparr>) a)
   \<and> (config_Decode env (config p) rs1 = (d\<lparr>CompressionLevel := l1\<rparr>, None)
       \<and> config_Decode env (config p) rs2 = (d\<lparr>CompressionLevel := l2\<rparr>, None)
       \<and> Algorithm (config (fst (Configure env p rs1))) = ''xz''
      \<longrightarrow> Algorithm (config (fst (Configure env p rs2))) = ''xz''
          \<and> PostProcess env (fst (Configure env p rs1)) a
            = PostProcess env (fst (Configure env p rs2)) a)"
proof (intro conjI impI)
  assume x: "Algorithm (config p) = ''xz''"
  show "setupOutput env ((config p)\<lparr>CompressionLevel := l1\<rparr>) f t
          = setupOutput env ((config p)\<lparr>CompressionLevel := l2\<rparr>) f t"
    using x by (simp add: setupOutput_xz_level)
  show "PostProcess env (p\<lparr>config := (config p)\<lparr>CompressionLevel := l1\<rparr>\<rparr>) a
          = PostProcess env (p\<lparr>config := (config p)\<lparr>CompressionLevel := l2\<rparr>\<rparr>) a"
    using x by (simp add: PostProcess_xz_level)
next
  assume a: "config_Decode env (config p) rs1 = (d\<lparr>CompressionLevel := l1\<rparr>, None)
       \<and> config_Decode env (config p) rs2 = (d\<lparr>CompressionLevel := l2\<rparr>, None)
       \<and> Algorithm (config (fst (Configure env p rs1))) = ''xz''"
  let ?path = "if OutputPath d = [] then ''packer_{{.BuildName}}_{{.BuilderType}}''
               else OutputPath d"
  let ?c = "detectFromFilename (d\<lparr>OutputPath := ?path\<rparr>)"
  define n :: "int \<Rightarrow> int" where
    "n l = (if 9 < l then 9 else if l = - 1 \<or> l = 0 then - 1 else l)" for l
  have c1: "fst (Configure env p rs1) = p\<lparr>config := ?c\<lparr>CompressionLevel := n l1\<rparr>\<rparr>"
    using a by (simp add: Configure_decoded n_def flip: detect_level)
  have c2: "fst (Configure env p rs2) = p\<lparr>config := ?c\<lparr>CompressionLevel := n l2\<rparr>\<rparr>"
    using a by (simp add: Configure_decoded n_def flip: detect_level)
  from a have x: "Algorithm ?c = ''xz''"
    by (simp add: c1)
  let ?q = "p\<lparr>config := ?c\<rparr>"
  have q: "Algorithm (config ?q) = ''xz''"
    using x by simp
  have s: "p\<lparr>config := ?c\<lparr>CompressionLevel := l\<rparr>\<rparr> =
             ?q\<lparr>config := (config ?q)\<lparr>CompressionLevel := l\<rparr>\<rparr>" for l
    by simp
  show "Algorithm (config (fst (Configure env p rs2))) = ''xz''"
    using x by (simp add: c2)
  show "PostProcess env (fst (Configure env p rs1)) a
          = PostProcess env (fst (Configure env p rs2)) a"
    unfolding c1 c2 s by (simp only: PostProcess_xz_level [OF q])
qed

theorem xz_ignores_level_witness:
  "Algorithm (config (fst (Configure testEnv newPostProcessor (testRaws ''root.xz'' 2)))) = ''xz''
   \<and> PostProcess testEnv (fst (Configure testEnv newPostProcessor (testRaws ''root.xz'' 2)))
        (testArtifact [''root.img''])
     = PostProcess testEnv (fst (Configure testEnv newPostProcessor (testRaws ''root.xz'' 7)))
        (testArtifact [''root.img''])
   \<and> fst (PostProcess testEnv (fst (Configure testEnv newPostProcessor (testRaws ''root.xz'' 7)))
        (testArtifact [''root.img'']))
     = Return (Some \<lparr>Path = ''root.xz''\<rparr>, False, False, None)"
proof -
  let ?d = "(config newPostProcessor)\<lparr>OutputPath := ''root.xz''\<rparr>"
  have dec: "config_Decode testEnv (config newPostProcessor) (testRaws ''root.xz'' k)
               = (?d\<lparr>CompressionLevel := k\<rparr>, None)" for k
    by (simp add: testEnv_def testDecode_def testRaws_def newPostProcessor_def)
  have alg: "Algorithm (config (fst (Configure testEnv newPostProcessor (testRaws ''root.xz'' 2))))
               = ''xz''"
    by (simp add: run_eval)
  have h: "config_Decode testEnv (config newPostProcessor) (testRaws ''root.xz'' 2)
             = (?d\<lparr>CompressionLevel := 2\<rparr>, None)
           \<and> config_Decode testEnv (config newPostProcessor) (testRaws ''root.xz'' 7)
             = (?d\<lparr>CompressionLevel := 7\<rparr>, None)
           \<and> Algorithm (config (fst (Configure testEnv newPostProcessor (testRaws ''root.xz'' 2))))
             = ''xz''"
    using dec alg by simp
  note e = xz_ignores_level
             [where env = testEnv and p = newPostProcessor and ?rs1.0 = "testRaws ''root.xz'' 2"
                and ?rs2.0 = "testRaws ''root.xz'' 7" and d = ?d and ?l1.0 = 2 and ?l2.0 = 7
                and a = "testArtifact [''root.img'']",
              THEN conjunct2, THEN mp, OF h, THEN conjunct2]
  have r: "fst (PostProcess testEnv
                  (fst (Configure testEnv newPostProcessor (testRaws ''root.xz'' 7)))
                  (testArtifact [''root.img'']))
             = Return (Some \<lparr>Path = ''root.xz''\<rparr>, False, False, None)"
    by (simp add: run_eval)
  from alg e r show ?thesis by blast
qed

text \<open>The last case of the switch on the archive kind, with a number of files other than
  one: the count is checked before anything else is done.\<close>

lemma buildArchive_wrong_count:
  assumes "Archive c \<noteq> ''tar''" and "Archive c \<noteq> ''zip''" and "length files \<noteq> 1"
  shows "buildArchive env c files w t =
     (Some (Errorf (''Can only have 1 input file when not using tar/zip. Found ''
                    @ fmt_d (int (length files)) @ '' files: '' @ fmt_v files)), [], [])"
  using assms by (simp add: buildArchive_def Let_def)

text \<open>What the switch on the algorithm can return.\<close>

lemma setupOutput_Inl:
  assumes "setupOutput env c f t = (Inl err, tr, df)"
  shows "\<exists>m. err = Errorf (''error creating '' @ Algorithm c @ '' writer: '' @ m)"
  using assms
  by (auto simp add: setupOutput_def writerCase_def split: if_splits sum.splits)

lemma setupOutput_Inr:
  assumes "setupOutput env c (OutputFile t) t = (Inr w, tr, df)"
  shows "(Algorithm c \<in> {''bgzf'', ''bzip2'', ''lz4'', ''xz'', ''pgzip''}
            \<and> w \<noteq> OutputFile t \<and> (\<exists>m. tr = [Say m, NewWriter w]) \<and> df = [CloseWriter w])
         \<or> (Algorithm c \<notin> {''bgzf'', ''bzip2'', ''lz4'', ''xz'', ''pgzip''}
            \<and> w = OutputFile t \<and> tr = [] \<and> df = [])"
proof -
  have b: "w \<noteq> OutputFile t" if "makeBGZFWriter env (OutputFile t) l = Inr w" for l
    using that by (auto simp add: makeBGZFWriter_def split: option.splits)
  have z: "w \<noteq> OutputFile t" if "makeBZIP2Writer env (OutputFile t) l = Inr w" for l
    using that by (auto simp add: makeBZIP2Writer_def Let_def split: option.splits)
  have l: "w \<noteq> OutputFile t" if "makeLZ4Writer env (OutputFile t) l = Inr w" for l
    using that by (auto simp add: makeLZ4Writer_def)
  have x: "w \<noteq> OutputFile t" if "makeXZWriter env (OutputFile t) = Inr w"
    using that by (auto simp add: makeXZWriter_def split: option.splits)
  have g: "w \<noteq> OutputFile t" if "makePgzipWriter env (OutputFile t) l = Inr w" for l
    using that by (auto simp add: makePgzipWriter_def split: option.splits)
  show ?thesis
    using assms b z l x g
    by (auto simp add: setupOutput_def writerCase_def split: if_splits sum.splits)
qed




text \<open>
  Claim C3, as amended. With an archive kind other than tar and zip and a number of input
  files other than one, the count is checked only after the sinks are opened: whenever
  \<open>PostProcess\<close> returns the error of the count check, the target was rendered, the
  directory and the output file were created with success and the writer was set up, for
  a compression algorithm a compression writer around the output file. The trace is the
  creation of the directory and of the file, what the setting up of the writer did, and
  the closing of the writer and of the file: the output file is left behind, no input
  file is opened and nothing is copied.
\<close>

theorem PostProcess_count_check_after_sinks:
  assumes "Archive (config p) \<noteq> ''tar''" and "Archive (config p) \<noteq> ''zip''"
    and "length (Files a) \<noteq> 1"
    and "PostProcess env p a =
           (Return (None, False, False,
              Some (Errorf (''Can only have 1 input file when not using tar/zip. Found ''
                            @ fmt_d (int (length (Files a))) @ '' files: ''
                            @ fmt_v (Files a)))), tr)"
  shows "\<exists>target w tr1 df.
           interpolate_Render env (OutputPath (config p)) (generatedData p a) = Inr target
         \<and> os_MkdirAll env (filepath_Dir env target) = None
         \<and> os_Create env target = None
         \<and> setupOutput env (config p) (OutputFile target) target = (Inr w, tr1, df)
         \<and> tr = [Println target, MkdirAll (filepath_Dir env target), Create target]
                  @ tr1 @ df @ [CloseWriter (OutputFile target)]
         \<and> Create target \<in> set tr
         \<and> (Algorithm (config p) \<in> {''bgzf'', ''bzip2'', ''lz4'', ''xz'', ''pgzip''}
              \<longrightarrow> w \<noteq> OutputFile target \<and> NewWriter w \<in> set tr
                  \<and> (\<exists>m. tr1 = [Say m, NewWriter w]) \<and> df = [CloseWriter w])
         \<and> (Algorithm (config p) \<notin> {''bgzf'', ''bzip2'', ''lz4'', ''xz'', ''pgzip''}
              \<longrightarrow> w = OutputFile target \<and> tr1 = [] \<and> df = [])
         \<and> (\<forall>path. Open path \<notin> set tr) \<and> (\<forall>v path. Copy v path \<notin> set tr)"
proof -
  note cnt = buildArchive_wrong_count [OF assms(1,2,3)]
  note run = assms(4)
  have st: "State a ''generated_data'' \<noteq> OtherValue"
    using run by (auto simp add: PostProcess_def)
  have sel: "(case State a ''generated_data'' of OtherValue \<Rightarrow> x | _ \<Rightarrow> y) = y"
    for x y :: "outcome \<times> event list"
    using st by (cases "State a ''generated_data''") simp_all
  obtain target where re: "interpolate_Render env (OutputPath (config p)) (generatedData p a) = Inr target"
    using run
    by (cases "interpolate_Render env (OutputPath (config p)) (generatedData p a)")
       (auto simp add: PostProcess_def sel failWith_def)
  have mk: "os_MkdirAll env (filepath_Dir env target) = None"
    using run re
    by (cases "os_MkdirAll env (filepath_Dir env target)")
       (auto simp add: PostProcess_def sel failWith_def)
  have cr: "os_Create env target = None"
    using run re mk
    by (cases "os_Create env target") (auto simp add: PostProcess_def sel failWith_def)
  obtain r tr1 df where so: "setupOutput env (config p) (OutputFile target) target = (r, tr1, df)"
    by (cases "setupOutput env (config p) (OutputFile target) target") auto
  have "\<exists>w. r = Inr w"
  proof (cases r)
    case (Inl err)
    from setupOutput_Inl [OF so [unfolded Inl]] obtain m
      where "err = Errorf (''error creating '' @ Algorithm (config p) @ '' writer: '' @ m)"
      by blast
    with run re mk cr so Inl show ?thesis
      by (simp add: PostProcess_def sel failWith_def withOutputFile_def)
  next
    case (Inr w)
    then show ?thesis by blast
  qed
  then obtain w where w: "r = Inr w" by blast
  have tr: "tr = [Println target, MkdirAll (filepath_Dir env target), Create target]
                  @ tr1 @ df @ [CloseWriter (OutputFile target)]"
    using run re mk cr so w
    by (simp add: PostProcess_def sel failWith_def withOutputFile_def cnt)
  note shape = setupOutput_Inr [OF so [unfolded w]]
  have no_open: "Open path \<notin> set tr" and no_copy: "Copy v path \<notin> set tr" for path v
    using shape unfolding tr by auto
  from re mk cr so w tr shape no_open no_copy show ?thesis
    by (intro exI [of _ target] exI [of _ w] exI [of _ tr1] exI [of _ df]) auto
qed

theorem PostProcess_count_check_after_sinks_witness:
  "Archive (config (fst (Configure testEnv newPostProcessor (testRaws ''root.bgzf'' 3)))) = ''''
   \<and> Algorithm (config (fst (Configure testEnv newPostProcessor (testRaws ''root.bgzf'' 3))))
       = ''bgzf''
   \<and> fst (PostProcess testEnv (fst (Configure testEnv newPostProcessor (testRaws ''root.bgzf'' 3)))
            (testArtifact [''a'', ''b'', ''c''])) =
       Return (None, False, False,
         Some (Errorf ''Can only have 1 input file when not using tar/zip. Found 3 files: [a b c]''))
   \<and> Create ''root.bgzf''
       \<in> set (snd (PostProcess testEnv
                      (fst (Configure testEnv newPostProcessor (testRaws ''root.bgzf'' 3)))
                      (testArtifact [''a'', ''b'', ''c''])))"
proof -
  let ?p = "fst (Configure testEnv newPostProcessor (testRaws ''root.bgzf'' 3))"
  let ?a = "testArtifact [''a'', ''b'', ''c'']"
  let ?tr = "snd (PostProcess testEnv ?p ?a)"
  have ar: "Archive (config ?p) = ''''" and al: "Algorithm (config ?p) = ''bgzf''"
    by (simp_all add: run_eval)
  have 1: "Archive (config ?p) \<noteq> ''tar''" and 2: "Archive (config ?p) \<noteq> ''zip''"
    by (simp_all add: ar)
  have 3: "length (Files ?a) \<noteq> 1"
    by (simp add: testArtifact_def)
  have f: "fst (PostProcess testEnv ?p ?a) =
       Return (None, False, False,
         Some (Errorf ''Can only have 1 input file when not using tar/zip. Found 3 files: [a b c]''))"
    by (simp add: run_eval)
  have m: "''Can only have 1 input file when not using tar/zip. Found ''
             @ fmt_d (int (length (Files ?a))) @ '' files: '' @ fmt_v (Files ?a)
           = ''Can only have 1 input file when not using tar/zip. Found 3 files: [a b c]''"
    by (simp add: testArtifact_def fmt_d_def fmt_v_def digits.simps)
  have 4: "PostProcess testEnv ?p ?a =
           (Return (None, False, False,
              Some (Errorf (''Can only have 1 input file when not using tar/zip. Found ''
                            @ fmt_d (int (length (Files ?a))) @ '' files: ''
                            @ fmt_v (Files ?a)))), ?tr)"
    unfolding m using f by (simp add: prod_eq_iff)
  from PostProcess_count_check_after_sinks [OF 1 2 3 4]
  obtain target where r: "interpolate_Render testEnv (OutputPath (config ?p)) (generatedData ?p ?a)
                            = Inr target"
    and c: "Create target \<in> set ?tr"
    by blast
  have "interpolate_Render testEnv (OutputPath (config ?p)) (generatedData ?p ?a) = Inr ''root.bgzf''"
    by (simp add: run_eval)
  with r have "target = ''root.bgzf''" by simp
  with c ar al f show ?thesis by blast
qed

text \<open>
  Claim C3 as stated fails: with the output "out.gz" and two input files, the error of the
  count check is returned after the output file was created and the pgzip writer
  constructed; both are closed on the way out and the file stays on disk.
\<close>

theorem PostProcess_count_check_late_counterexample:
  "PostProcess testEnv (fst (Configure testEnv newPostProcessor (testRaws ''out.gz'' 6)))
     (testArtifact [''a'', ''b''])
   = (Return (None, False, False,
        Some (Errorf ''Can only have 1 input file when not using tar/zip. Found 2 files: [a b]'')),
      [Println ''out.gz'', MkdirAll ''.'', Create ''out.gz'',
       Say ''Using pgzip compression with 4 cores for out.gz'',
       NewWriter (PgzipWriter (OutputFile ''out.gz'') 6 500000 4),
       CloseWriter (PgzipWriter (OutputFile ''out.gz'') 6 500000 4),
       CloseWriter (OutputFile ''out.gz'')])"
  by (simp add: run_eval)


end
